theory Spec2Isabelle
  imports Complex_Main "HOL-Library.AList"
begin

section \<open>Python values, exceptions and dictionaries\<close>

text \<open>
  The values an attribute of a dynamics instance can hold: \<open>None\<close>, a Python number
  (\<open>float\<close> or \<open>int\<close>), a numpy scalar (what an element of an array is), a
  one-dimensional numeric array, a string, or an object of a collaborator class
  (\<open>MassProperties\<close>) given by its class name and its attributes. Numbers are
  idealised as reals; rounding of floating-point arithmetic is not modelled. The two
  kinds of number differ under a subscript: a Python number raises TypeError, a numpy
  scalar raises IndexError.
\<close>

datatype val =
    VNone
  | VNum real
  | VNpNum real
  | VArr "real list"
  | VStr string
  | VObj string "(string \<times> val) list"

text \<open>
  A \<open>dict\<close> keeps insertion order: storing under a present key replaces the value in
  place, storing under a new key appends (\<open>AList.update\<close>).
\<close>

type_synonym dict = "(string \<times> val) list"

text \<open>
  Exceptions as values. The payload is the message where the source gives one, and the
  offending name where the interpreter raises the error. \<open>BaseExc\<close> stands for the
  exceptions outside the \<open>Exception\<close> hierarchy, \<open>OtherException\<close> for any other
  subclass of \<open>Exception\<close> a collaborator may raise.
\<close>

datatype exn =
    KeyError string
  | ValueError string
  | IndexError string
  | TypeError string
  | AttributeError string
  | RecursionError string
  | OtherException string
  | BaseExc string

fun dict_extend :: "dict \<Rightarrow> (string \<times> val) list \<Rightarrow> dict" where
  "dict_extend d [] = d"
| "dict_extend d ((k, v) # ps) = dict_extend (AList.update k v d) ps"

definition dict_of_pairs :: "(string \<times> val) list \<Rightarrow> dict" where
  \<comment> \<open>a dict display or comprehension: the pairs are stored one after the other\<close>
  "dict_of_pairs ps = dict_extend [] ps"

section \<open>Arithmetic and subscripting on values\<close>

fun py_neg :: "val \<Rightarrow> exn + val" where
  "py_neg (VNum a) = Inr (VNum (- a))"
| "py_neg (VArr xs) = Inr (VArr (map uminus xs))"
| "py_neg (VNpNum a) = Inr (VNpNum (- a))"
| "py_neg v = Inl (TypeError ''bad operand type for unary -'')"

fun py_mul :: "val \<Rightarrow> val \<Rightarrow> exn + val" where
  "py_mul (VNum a) (VNum b) = Inr (VNum (a * b))"
| "py_mul (VNum a) (VArr ys) = Inr (VArr (map (\<lambda>y. a * y) ys))"
| "py_mul (VArr xs) (VNum b) = Inr (VArr (map (\<lambda>x. x * b) xs))"
| "py_mul (VArr xs) (VArr ys) =
     (if length xs = length ys then Inr (VArr (map (\<lambda>(x, y). x * y) (zip xs ys)))
      else (case xs of
              [x] \<Rightarrow> Inr (VArr (map (\<lambda>y. x * y) ys))
            | _ \<Rightarrow> (case ys of
                      [y] \<Rightarrow> Inr (VArr (map (\<lambda>x. x * y) xs))
                    | _ \<Rightarrow> Inl (ValueError ''operands could not be broadcast together''))))"
| "py_mul (VNum a) (VNpNum b) = Inr (VNpNum (a * b))"
| "py_mul (VNpNum a) (VNum b) = Inr (VNpNum (a * b))"
| "py_mul (VNpNum a) (VNpNum b) = Inr (VNpNum (a * b))"
| "py_mul (VNpNum a) (VArr ys) = Inr (VArr (map (\<lambda>y. a * y) ys))"
| "py_mul (VArr xs) (VNpNum b) = Inr (VArr (map (\<lambda>x. x * b) xs))"
| "py_mul v w = Inl (TypeError ''unsupported operand type(s) for *'')"

definition py_index :: "'a list \<Rightarrow> int \<Rightarrow> 'a option" where
  \<comment> \<open>integer subscript of a sequence: \<open>-1\<close> is the last element, and so on\<close>
  "py_index xs i =
     (if 0 \<le> i \<and> i < int (length xs) then Some (xs ! nat i)
      else if - int (length xs) \<le> i \<and> i < 0 then Some (xs ! nat (int (length xs) + i))
      else None)"

text \<open>
  What is outside the files at hand: the value of \<open>MassProperties()\<close>, how an object of
  a collaborator class answers a subscript, and how many nested calls the interpreter
  still allows.
\<close>

record env =
  default_mass_props :: val
  obj_getitem :: "string \<Rightarrow> (string \<times> val) list \<Rightarrow> int \<Rightarrow> exn + val"
  recursion_fuel :: nat

definition subscript :: "env \<Rightarrow> val \<Rightarrow> int \<Rightarrow> exn + val" where
  \<comment> \<open>\<open>a[index]\<close> for an integer index; an element of an array is a numpy scalar\<close>
  "subscript E a i =
     (case a of
        VNone \<Rightarrow> Inl (TypeError ''object is not subscriptable'')
      | VNum x \<Rightarrow> Inl (TypeError ''object is not subscriptable'')
      | VNpNum x \<Rightarrow> Inl (IndexError ''invalid index to scalar variable.'')
      | VArr xs \<Rightarrow> (case py_index xs i of
                      Some x \<Rightarrow> Inr (VNpNum x)
                    | None \<Rightarrow> Inl (IndexError ''index is out of bounds''))
      | VStr s \<Rightarrow> (case py_index s i of
                     Some c \<Rightarrow> Inr (VStr [c])
                   | None \<Rightarrow> Inl (IndexError ''string index out of range''))
      | VObj n fs \<Rightarrow> obj_getitem E n fs i)"

fun np_length :: "val \<Rightarrow> nat" where
  \<comment> \<open>\<open>np.length\<close>: \<open>len\<close> of the value, and 1 where \<open>len\<close> raises TypeError\<close>
  "np_length (VArr xs) = length xs"
| "np_length (VStr s) = length s"
| "np_length v = 1"

section \<open>Dynamics classes and instances\<close>

text \<open>
  A concrete variant of the abstract base class is given by its schema: the names of its
  state variables, of its indirect control variables, of its control variables, and of the
  read-only properties it adds to those of the base class. An instance is its class and
  its \<open>__dict__\<close>.
\<close>

record dyn_class =
  state_names :: "string list"
  indirect_control_names :: "string list"
  control_names :: "string list"
  property_names :: "string list"

record dyn =
  cls :: dyn_class
  attrs :: dict

definition base_properties :: "string list" where
  "base_properties =
     [''state'', ''control_variables'', ''op_point'', ''altitude'',
      ''translational_kinetic_energy'', ''kinetic_energy'', ''potential_energy'']"

definition readonly_names :: "dyn_class \<Rightarrow> string list" where
  "readonly_names c = base_properties @ property_names c"

definition getattr :: "dyn \<Rightarrow> string \<Rightarrow> exn + val" where
  \<comment> \<open>\<open>self.k\<close> for a name kept in \<open>__dict__\<close>\<close>
  "getattr self k =
     (case map_of (attrs self) k of
        Some v \<Rightarrow> Inr v
      | None \<Rightarrow> Inl (AttributeError k))"

definition setattr :: "dyn \<Rightarrow> string \<Rightarrow> val \<Rightarrow> exn + dyn" where
  \<comment> \<open>\<open>setattr(self, k, v)\<close>: a property without setter refuses the assignment\<close>
  "setattr self k v =
     (if k \<in> set (readonly_names (cls self)) then Inl (AttributeError k)
      else Inr (self\<lparr>attrs := AList.update k v (attrs self)\<rparr>))"

definition obj_getattr :: "val \<Rightarrow> string \<Rightarrow> exn + val" where
  \<comment> \<open>attribute of a collaborator object, as in \<open>self.mass_props.mass\<close>\<close>
  "obj_getattr v k =
     (case v of
        VObj n fs \<Rightarrow> (case map_of fs k of
                        Some x \<Rightarrow> Inr x
                      | None \<Rightarrow> Inl (AttributeError k))
      | _ \<Rightarrow> Inl (AttributeError k))"

fun read_attrs :: "dyn \<Rightarrow> string list \<Rightarrow> dict \<Rightarrow> exn + dict" where
  \<comment> \<open>the dict \<open>{k: self.k, ...}\<close> over the given names, built left to right\<close>
  "read_attrs self [] acc = Inr acc"
| "read_attrs self (k # ks) acc =
     (case getattr self k of
        Inl e \<Rightarrow> Inl e
      | Inr v \<Rightarrow> read_attrs self ks (AList.update k v acc))"

definition state :: "dyn \<Rightarrow> exn + dict" where
  \<comment> \<open>Modelled from the spec: the abstract property \<open>state\<close>, which a variant writes as
      the dict display \<open>{"x_e": self.x_e, "u_e": self.u_e, ...}\<close> over its state names.\<close>
  "state self = read_attrs self (state_names (cls self)) []"

definition control_variables :: "dyn \<Rightarrow> exn + dict" where
  \<comment> \<open>Modelled from the spec: the abstract property \<open>control_variables\<close>, the same
      display over the control names.\<close>
  "control_variables self = read_attrs self (control_names (cls self)) []"

fun assign_each :: "dyn \<Rightarrow> dict \<Rightarrow> exn + dyn" where
  \<comment> \<open>the statements \<open>self.k = v\<close> one after the other\<close>
  "assign_each self [] = Inr self"
| "assign_each self ((k, v) # kvs) =
     (case setattr self k v of
        Inl e \<Rightarrow> Inl e
      | Inr s \<Rightarrow> assign_each s kvs)"

fun take_args :: "dict \<Rightarrow> string list \<Rightarrow> exn + dict" where
  "take_args kw [] = Inr []"
| "take_args kw (k # ks) =
     (case map_of kw k of
        None \<Rightarrow> Inl (TypeError k)
      | Some v \<Rightarrow> (case take_args kw ks of
                     Inl e \<Rightarrow> Inl e
                   | Inr r \<Rightarrow> Inr ((k, v) # r)))"

definition init_args :: "dyn_class \<Rightarrow> string list" where
  \<comment> \<open>the constructor's parameters after \<open>self\<close>\<close>
  "init_args c = ''mass_props'' # state_names c @ indirect_control_names c"

definition construct :: "env \<Rightarrow> dyn_class \<Rightarrow> dict \<Rightarrow> exn + dyn" where
  \<comment> \<open>Modelled from the spec: the constructor of a variant, as the abstract
      \<open>__init__\<close> prescribes it: \<open>mass_props\<close> (a fresh \<open>MassProperties()\<close> when None),
      then each state variable and each indirect control variable from its argument, then
      each control variable set to 0. The source calls it with every parameter given, so
      the variant's defaults are not needed: an omitted state argument is an error here.\<close>
  "construct E c kw =
     (case take_args kw (state_names c @ indirect_control_names c) of
        Inl e \<Rightarrow> Inl e
      | Inr bound \<Rightarrow>
          assign_each \<lparr>cls = c, attrs = []\<rparr>
            ((''mass_props'',
                (case map_of kw ''mass_props'' of
                   None \<Rightarrow> default_mass_props E
                 | Some VNone \<Rightarrow> default_mass_props E
                 | Some mp \<Rightarrow> mp))
             # bound @ map (\<lambda>k. (k, VNum 0)) (control_names c)))"

section \<open>The state container\<close>

definition pack_mismatch_message :: string where
  "pack_mismatch_message =
     ''There are a differing number of elements in the `state` variable and the `array_like` you're trying to pack!''"

definition unpack_state :: "dyn \<Rightarrow> dict option \<Rightarrow> exn + val list" where
  "unpack_state self dict_like_state =
     (case dict_like_state of
        None \<Rightarrow> (case state self of Inl e \<Rightarrow> Inl e | Inr st \<Rightarrow> Inr (map snd st))
      | Some d \<Rightarrow> Inr (map snd d))"

definition pack_state :: "dyn \<Rightarrow> val list option \<Rightarrow> exn + dict" where
  "pack_state self array_like_state =
     (case array_like_state of
        None \<Rightarrow> state self
      | Some xs \<Rightarrow>
          (case state self of
             Inl e \<Rightarrow> Inl e
           | Inr st \<Rightarrow>
               if \<not> length (map fst st) = length xs
               then Inl (ValueError pack_mismatch_message)
               else Inr (dict_of_pairs (zip (map fst st) xs))))"

text \<open>
  The argument of \<open>_set_state\<close>: absent, a dict, or a sequence (list, tuple, array).
\<close>

datatype new_state = NoState | DictState dict | SeqState "val list"

fun assign_all :: "dyn \<Rightarrow> dict \<Rightarrow> (dyn \<times> exn) + dyn" where
  \<comment> \<open>the loop \<open>for key in new_state.keys(): setattr(self, key, new_state[key])\<close>; an
      error leaves the assignments made so far in place\<close>
  "assign_all self [] = Inr self"
| "assign_all self ((k, v) # kvs) =
     (case setattr self k v of
        Inl e \<Rightarrow> Inl (self, e)
      | Inr s \<Rightarrow> assign_all s kvs)"

fun set_state :: "nat \<Rightarrow> dyn \<Rightarrow> new_state \<Rightarrow> exn + dyn" where
  \<comment> \<open>\<open>_set_state\<close>; the first argument bounds the depth of the recursion, as the
      interpreter does. A sequence has no \<open>keys\<close>, which raises the AttributeError at
      once; a dict handed on to \<open>pack_state\<close> is iterated over its keys.\<close>
  "set_state 0 self ns = Inl (RecursionError ''maximum recursion depth exceeded'')"
| "set_state (Suc n) self NoState = Inr self"
| "set_state (Suc n) self (DictState d) =
     (case assign_all self d of
        Inr s \<Rightarrow> Inr s
      | Inl (s, AttributeError m) \<Rightarrow>
          (case pack_state s (Some (map (\<lambda>(k, v). VStr k) d)) of
             Inl e \<Rightarrow> Inl e
           | Inr packed \<Rightarrow> set_state n s (DictState packed))
      | Inl (s, e) \<Rightarrow> Inl e)"
| "set_state (Suc n) self (SeqState xs) =
     (case pack_state self (Some xs) of
        Inl e \<Rightarrow> Inl e
      | Inr packed \<Rightarrow> set_state n self (DictState packed))"

definition get_new_instance_with_state :: "env \<Rightarrow> dyn \<Rightarrow> new_state \<Rightarrow> exn + dyn" where
  "get_new_instance_with_state E self ns =
     (case read_attrs self (init_args (cls self)) [] of
        Inl e \<Rightarrow> Inl e
      | Inr kw \<Rightarrow>
          (case construct E (cls self) kw of
             Inl e \<Rightarrow> Inl e
           | Inr new_dyn \<Rightarrow> set_state (recursion_fuel E) new_dyn ns))"

section \<open>Indexing and length\<close>

definition index_out_of_range_message :: string where
  "index_out_of_range_message =
     ''A state variable could not be indexed, since the index is out of range!''"

definition different_lengths_message :: string where
  "different_lengths_message =
     ''State variables are appear vectorized, but of different lengths!''"

definition get_item_of_attribute :: "env \<Rightarrow> int \<Rightarrow> val \<Rightarrow> exn + val" where
  "get_item_of_attribute E index a =
     (case subscript E a index of
        Inr x \<Rightarrow> Inr x
      | Inl (TypeError m) \<Rightarrow> Inr a
      | Inl (IndexError m) \<Rightarrow> Inl (IndexError index_out_of_range_message)
      | Inl e \<Rightarrow> Inl e)"

fun index_attrs :: "env \<Rightarrow> int \<Rightarrow> dyn \<Rightarrow> dict \<Rightarrow> exn + dyn" where
  \<comment> \<open>the loop over \<open>new_instance.__dict__.items()\<close>; each key is already present, so
      the assignments change no key and every item is visited with its original value\<close>
  "index_attrs E index self [] = Inr self"
| "index_attrs E index self ((k, v) # kvs) =
     (case get_item_of_attribute E index v of
        Inl e \<Rightarrow> Inl e
      | Inr x \<Rightarrow> (case setattr self k x of
                    Inl e \<Rightarrow> Inl e
                  | Inr s \<Rightarrow> index_attrs E index s kvs))"

definition getitem :: "env \<Rightarrow> dyn \<Rightarrow> int \<Rightarrow> exn + dyn" where
  \<comment> \<open>\<open>__getitem__\<close> for an integer index\<close>
  "getitem E self index =
     (case get_new_instance_with_state E self NoState of
        Inl e \<Rightarrow> Inl e
      | Inr new_instance \<Rightarrow> index_attrs E index new_instance (attrs new_instance))"

fun len_loop :: "nat \<Rightarrow> val list \<Rightarrow> exn + nat" where
  \<comment> \<open>the loop of \<open>__len__\<close>; the first argument is the local \<open>length\<close>\<close>
  "len_loop l [] = Inr l"
| "len_loop l (v # vs) =
     (if np_length v = 1 then len_loop l vs
      else if l = 1 then len_loop (np_length v) vs
      else if l = np_length v then len_loop l vs
      else Inl (ValueError different_lengths_message))"

definition len :: "dyn \<Rightarrow> exn + nat" where
  \<comment> \<open>\<open>__len__\<close>\<close>
  "len self =
     (case state self of
        Inl e \<Rightarrow> Inl e
      | Inr st \<Rightarrow> len_loop 1 (map snd st))"

section \<open>Binding derivative constraints\<close>

text \<open>
  The argument \<open>which\<close> is a string or a sequence of names; iterating a string yields
  its characters. The optimisation context is a state of any type, and its
  \<open>constrain_derivative\<close> (derivative, variable, with_respect_to, method) returns the
  new context or raises. \<open>state_derivatives\<close> is the variant's method.
\<close>

datatype which_arg = WStr string | WSeq "string list"

definition which_names :: "dyn \<Rightarrow> which_arg \<Rightarrow> exn + string list" where
  "which_names self which =
     (case which of
        WStr s \<Rightarrow>
          if s = ''all''
          then (case state self of Inl e \<Rightarrow> Inl e | Inr st \<Rightarrow> Inr (map fst st))
          else Inr (map (\<lambda>c. [c]) s)
      | WSeq ns \<Rightarrow> Inr ns)"

definition unknown_state_message :: "string \<Rightarrow> string" where
  "unknown_state_message state_var_name =
     ''This dynamics instance does not have a state named '' @ [CHR 0x27]
       @ state_var_name @ [CHR 0x27] @ ''!''"

definition constraining_error_message :: "string \<Rightarrow> string \<Rightarrow> string" where
  \<comment> \<open>the second argument is the text of the exception caught\<close>
  "constraining_error_message state_var_name e =
     ''Error while constraining state variable '' @ [CHR 0x27]
       @ state_var_name @ [CHR 0x27] @ '': '' @ [CHR 0x0A] @ e"

definition constrain_handler :: "string \<Rightarrow> exn \<Rightarrow> exn" where
  \<comment> \<open>the two \<open>except\<close> clauses around the external call: KeyError first, then any
      other \<open>Exception\<close>; what is no \<open>Exception\<close> passes\<close>
  "constrain_handler state_var_name e =
     (case e of
        KeyError m \<Rightarrow> ValueError (unknown_state_message state_var_name)
      | ValueError m \<Rightarrow> ValueError (constraining_error_message state_var_name m)
      | IndexError m \<Rightarrow> ValueError (constraining_error_message state_var_name m)
      | TypeError m \<Rightarrow> ValueError (constraining_error_message state_var_name m)
      | AttributeError m \<Rightarrow> ValueError (constraining_error_message state_var_name m)
      | RecursionError m \<Rightarrow> ValueError (constraining_error_message state_var_name m)
      | OtherException m \<Rightarrow> ValueError (constraining_error_message state_var_name m)
      | BaseExc m \<Rightarrow> BaseExc m)"

definition constrain_one ::
  "('o \<Rightarrow> val \<Rightarrow> val \<Rightarrow> val \<Rightarrow> string \<Rightarrow> exn + 'o) \<Rightarrow> dyn \<Rightarrow> dict \<Rightarrow> val \<Rightarrow> string
     \<Rightarrow> 'o \<Rightarrow> string \<Rightarrow> exn + 'o" where
  \<comment> \<open>the body of the loop for one name; \<open>sd\<close> is the dict of derivatives\<close>
  "constrain_one constrain_derivative self sd time method opti state_var_name =
     (case map_of sd state_var_name of
        None \<Rightarrow> Inl (KeyError state_var_name)
      | Some VNone \<Rightarrow> Inr opti
      | Some derivative \<Rightarrow>
          (case state self of
             Inl e \<Rightarrow> Inl (constrain_handler state_var_name e)
           | Inr st \<Rightarrow>
               (case map_of st state_var_name of
                  None \<Rightarrow> Inl (constrain_handler state_var_name (KeyError state_var_name))
                | Some variable \<Rightarrow>
                    (case constrain_derivative opti derivative variable time method of
                       Inl e \<Rightarrow> Inl (constrain_handler state_var_name e)
                     | Inr opti' \<Rightarrow> Inr opti'))))"

fun constrain_loop ::
  "('o \<Rightarrow> val \<Rightarrow> val \<Rightarrow> val \<Rightarrow> string \<Rightarrow> exn + 'o) \<Rightarrow> dyn \<Rightarrow> dict \<Rightarrow> val \<Rightarrow> string
     \<Rightarrow> 'o \<Rightarrow> string list \<Rightarrow> exn + 'o" where
  "constrain_loop cd self sd time method opti [] = Inr opti"
| "constrain_loop cd self sd time method opti (name # names) =
     (case constrain_one cd self sd time method opti name of
        Inl e \<Rightarrow> Inl e
      | Inr opti' \<Rightarrow> constrain_loop cd self sd time method opti' names)"

definition constrain_derivatives ::
  "('o \<Rightarrow> val \<Rightarrow> val \<Rightarrow> val \<Rightarrow> string \<Rightarrow> exn + 'o) \<Rightarrow> (dyn \<Rightarrow> exn + dict) \<Rightarrow> dyn
     \<Rightarrow> 'o \<Rightarrow> val \<Rightarrow> string option \<Rightarrow> which_arg option \<Rightarrow> exn + 'o" where
  \<comment> \<open>\<open>method\<close> defaults to "midpoint" and \<open>which\<close> to "all"\<close>
  "constrain_derivatives cd state_derivatives self opti time method which =
     (case which_names self (case which of None \<Rightarrow> WStr ''all'' | Some w \<Rightarrow> w) of
        Inl e \<Rightarrow> Inl e
      | Inr names \<Rightarrow>
          (case state_derivatives self of
             Inl e \<Rightarrow> Inl e
           | Inr sd \<Rightarrow>
               constrain_loop cd self sd time
                 (case method of None \<Rightarrow> ''midpoint'' | Some m \<Rightarrow> m) opti names))"

section \<open>Forces and energies\<close>

definition mass_of :: "dyn \<Rightarrow> exn + val" where
  \<comment> \<open>\<open>self.mass_props.mass\<close>\<close>
  "mass_of self =
     (case getattr self ''mass_props'' of
        Inl e \<Rightarrow> Inl e
      | Inr mp \<Rightarrow> obj_getattr mp ''mass'')"

definition add_gravity_force ::
  "(dyn \<Rightarrow> val option \<Rightarrow> val option \<Rightarrow> val option \<Rightarrow> string option \<Rightarrow> exn + dyn)
     \<Rightarrow> dyn \<Rightarrow> val option \<Rightarrow> exn + dyn" where
  \<comment> \<open>\<open>add_force\<close> is the variant's method, taking \<open>Fx\<close>, \<open>Fy\<close>, \<open>Fz\<close> and \<open>axes\<close>, each
      given or left to its default; it works in place, so the model returns the instance.
      \<open>g\<close> defaults to 9.81.\<close>
  "add_gravity_force add_force self g =
     (case mass_of self of
        Inl e \<Rightarrow> Inl e
      | Inr m \<Rightarrow>
          (case py_mul m (case g of None \<Rightarrow> VNum 9.81 | Some x \<Rightarrow> x) of
             Inl e \<Rightarrow> Inl e
           | Inr f \<Rightarrow> add_force self None None (Some f) (Some ''earth'')))"

definition altitude :: "dyn \<Rightarrow> exn + val" where
  "altitude self =
     (case getattr self ''z_e'' of
        Inl e \<Rightarrow> Inl e
      | Inr z \<Rightarrow> py_neg z)"

definition potential_energy :: "dyn \<Rightarrow> exn + val" where
  \<comment> \<open>a property, so \<open>g\<close> is always its default 9.81\<close>
  "potential_energy self =
     (case mass_of self of
        Inl e \<Rightarrow> Inl e
      | Inr m \<Rightarrow>
          (case py_mul m (VNum 9.81) of
             Inl e \<Rightarrow> Inl e
           | Inr mg \<Rightarrow>
               (case altitude self of
                  Inl e \<Rightarrow> Inl e
                | Inr h \<Rightarrow> py_mul mg h)))"

section \<open>Example instances\<close>

text \<open>
  A planar point-mass variant with four state variables, one indirect control variable and
  two accumulated forces, used to run the definitions on concrete inputs.
\<close>

definition example_class :: dyn_class where
  "example_class =
     \<lparr>state_names = [''x_e'', ''z_e'', ''u_e'', ''w_e''],
      indirect_control_names = [''alpha''],
      control_names = [''Fx_e'', ''Fz_e''],
      property_names = [''speed'', ''gamma'']\<rparr>"

definition example_env :: env where
  "example_env =
     \<lparr>default_mass_props = VObj ''MassProperties'' [],
      obj_getitem = (\<lambda>n fs i. Inl (TypeError ''object is not subscriptable'')),
      recursion_fuel = 1000\<rparr>"

definition example_mass_props :: val where
  "example_mass_props = VObj ''MassProperties'' [(''mass'', VNum 2)]"

definition example_dyn :: dyn where
  \<comment> \<open>one instant: the state \<open>{x_e: 0, z_e: -100, u_e: 50, w_e: 0}\<close>\<close>
  "example_dyn =
     \<lparr>cls = example_class,
      attrs = [(''mass_props'', example_mass_props),
               (''x_e'', VNum 0), (''z_e'', VNum (- 100)), (''u_e'', VNum 50), (''w_e'', VNum 0),
               (''alpha'', VNum 0),
               (''Fx_e'', VNum 0), (''Fz_e'', VNum 0)]\<rparr>"

definition example_add_force ::
  "dyn \<Rightarrow> val option \<Rightarrow> val option \<Rightarrow> val option \<Rightarrow> string option \<Rightarrow> exn + dyn" where
  \<comment> \<open>a stand-in for a variant's \<open>add_force\<close>: it stores the \<open>Fz\<close> it is given\<close>
  "example_add_force self Fx Fy Fz axes =
     (case Fz of
        None \<Rightarrow> Inr self
      | Some f \<Rightarrow> setattr self ''Fz_e'' f)"

definition example_state_derivatives :: "dyn \<Rightarrow> exn + dict" where
  \<comment> \<open>a stand-in for a variant's \<open>state_derivatives\<close>: the positions follow the
      velocities, and the velocities have no dynamics enforced here\<close>
  "example_state_derivatives self =
     (case getattr self ''u_e'' of
        Inl e \<Rightarrow> Inl e
      | Inr u \<Rightarrow>
          (case getattr self ''w_e'' of
             Inl e \<Rightarrow> Inl e
           | Inr w \<Rightarrow> Inr [(''x_e'', u), (''z_e'', w), (''u_e'', VNone), (''w_e'', VNone)]))"

definition example_constrain ::
  "(val \<times> val) list \<Rightarrow> val \<Rightarrow> val \<Rightarrow> val \<Rightarrow> string \<Rightarrow> exn + (val \<times> val) list" where
  \<comment> \<open>a stand-in for the optimisation context: it records each constraint imposed\<close>
  "example_constrain opti derivative variable time method =
     Inr (opti @ [(derivative, variable)])"

definition example_mixed :: dyn where
  \<comment> \<open>a three-element array beside a one-element array\<close>
  "example_mixed =
     \<lparr>cls = example_class,
      attrs = [(''mass_props'', example_mass_props),
               (''x_e'', VArr [1, 2, 3]), (''z_e'', VArr [5]), (''u_e'', VNum 50),
               (''w_e'', VNum 0),
               (''alpha'', VNum 0),
               (''Fx_e'', VNum 0), (''Fz_e'', VNum 0)]\<rparr>"

definition example_ragged :: dyn where
  \<comment> \<open>a three-element array beside a two-element array\<close>
  "example_ragged =
     \<lparr>cls = example_class,
      attrs = [(''mass_props'', example_mass_props),
               (''x_e'', VArr [1, 2, 3]), (''z_e'', VArr [5, 6]), (''u_e'', VNum 50),
               (''w_e'', VNum 0),
               (''alpha'', VNum 0),
               (''Fx_e'', VNum 0), (''Fz_e'', VNum 0)]\<rparr>"

section \<open>Well-formed classes and the attributes of a derived instance\<close>

text \<open>
  The names of a class are well formed when the constructor's parameters and the control
  variables are pairwise distinct and none of them is a read-only property. The
  attributes a derived instance starts from are written out once: the constructor
  arguments read from the source, and every control variable at 0.
\<close>

definition wf_class :: "dyn_class \<Rightarrow> bool" where
  "wf_class c =
     (distinct (init_args c @ control_names c)
      \<and> set (init_args c @ control_names c) \<inter> set (readonly_names c) = {})"

definition has_init_args :: "dyn \<Rightarrow> bool" where
  "has_init_args D = (set (init_args (cls D)) \<subseteq> fst ` set (attrs D))"

definition attr_value :: "dyn \<Rightarrow> string \<Rightarrow> val" where
  "attr_value D k = (case map_of (attrs D) k of Some v \<Rightarrow> v | None \<Rightarrow> VNone)"

definition carried_mass_props :: "env \<Rightarrow> dyn \<Rightarrow> val" where
  "carried_mass_props E D =
     (case map_of (attrs D) ''mass_props'' of
        None \<Rightarrow> default_mass_props E
      | Some VNone \<Rightarrow> default_mass_props E
      | Some mp \<Rightarrow> mp)"

definition rebuilt_attrs :: "env \<Rightarrow> dyn \<Rightarrow> dict" where
  "rebuilt_attrs E D =
     (''mass_props'', carried_mass_props E D)
     # map (\<lambda>k. (k, attr_value D k)) (state_names (cls D) @ indirect_control_names (cls D))
     @ map (\<lambda>k. (k, VNum 0)) (control_names (cls D))"

fun states_only :: "dyn_class \<Rightarrow> new_state \<Rightarrow> bool" where
  "states_only c NoState = True"
| "states_only c (DictState d) =
     (fst ` set d \<inter> set (''mass_props'' # indirect_control_names c @ control_names c
        @ readonly_names c) = {})"
| "states_only c (SeqState xs) = (length xs = length (state_names c))"

fun is_state :: "dyn_class \<Rightarrow> new_state \<Rightarrow> bool" where
  \<comment> \<open>a new state of the class: absent, a dict (partial or complete) keyed by state
      variables, or a sequence with one value for each state variable\<close>
  "is_state c NoState = True"
| "is_state c (DictState d) = (fst ` set d \<subseteq> set (state_names c))"
| "is_state c (SeqState xs) = (length xs = length (state_names c))"

definition example_loaded :: dyn where
  "example_loaded =
     \<lparr>cls = example_class,
      attrs = [(''mass_props'', example_mass_props),
               (''x_e'', VNum 0), (''z_e'', VNum (- 100)), (''u_e'', VNum 50), (''w_e'', VNum 0),
               (''alpha'', VNum 0.1),
               (''Fx_e'', VNum 7), (''Fz_e'', VNum 19.62)]\<rparr>"

section \<open>Values that pass through a subscript\<close>





definition example_trajectory :: dyn where
  "example_trajectory =
     \<lparr>cls = example_class,
      attrs = [(''mass_props'', example_mass_props),
               (''x_e'', VArr [0, 10, 20]), (''z_e'', VArr [- 100, - 101, - 102]),
               (''u_e'', VNum 50), (''w_e'', VArr [0, 1, 2]),
               (''alpha'', VNum 0),
               (''Fx_e'', VArr [1, 2, 3]), (''Fz_e'', VNum 0)]\<rparr>"

section \<open>Dictionaries built from distinct keys\<close>

lemma update_fresh: "k \<notin> fst ` set d \<Longrightarrow> AList.update k v d = d @ [(k, v)]"
  by (induction d) auto

lemma dict_extend_distinct: "distinct (map fst (d @ ps)) \<Longrightarrow> dict_extend d ps = d @ ps"
proof (induction ps arbitrary: d)
  case Nil
  then show ?case by simp
next
  case (Cons p ps)
  obtain k v where p: "p = (k, v)" by (cases p)
  from Cons.prems p have fresh: "k \<notin> fst ` set d" by auto
  from Cons.prems p have "distinct (map fst ((d @ [(k, v)]) @ ps))" by simp
  from Cons.IH [OF this] fresh p show ?case by (simp add: update_fresh)
qed

lemma dict_of_pairs_distinct: "distinct (map fst ps) \<Longrightarrow> dict_of_pairs ps = ps"
  using dict_extend_distinct [of "[]" ps] by (simp add: dict_of_pairs_def)

lemma read_attrs_distinct:
  "read_attrs self ks acc = Inr d \<Longrightarrow> distinct (map fst acc) \<Longrightarrow> distinct (map fst d)"
  by (induction ks arbitrary: acc) (auto split: sum.splits simp: AList.distinct_update)

lemma state_distinct: "state D = Inr st \<Longrightarrow> distinct (map fst st)"
  unfolding state_def using read_attrs_distinct [of D _ "[]" st] by simp

lemma example_state:
  "state example_dyn =
     Inr [(''x_e'', VNum 0), (''z_e'', VNum (- 100)), (''u_e'', VNum 50), (''w_e'', VNum 0)]"
  by (simp add: state_def example_dyn_def example_class_def getattr_def)

lemma example_mass: "mass_of example_dyn = Inr (VNum 2)"
  by (simp add: mass_of_def getattr_def obj_getattr_def example_dyn_def example_mass_props_def)

section \<open>Packing and unpacking the state\<close>

text \<open>
  C3. For an instance whose state can be read, unpacking the state gives its values in
  the order of its keys (with the state passed or left to its default), and packing these
  values gives the state back: the same keys, in the same order, with the same values.
\<close>

theorem pack_unpack_roundtrip:
  assumes "state D = Inr st"
  shows "unpack_state D None = Inr (map snd st)
       \<and> unpack_state D (Some st) = Inr (map snd st)
       \<and> pack_state D (Some (map snd st)) = Inr st"
proof -
  have "zip (map fst st) (map snd st) = st"
    by (simp add: zip_map_fst_snd)
  with state_distinct [OF assms] have "dict_of_pairs (zip (map fst st) (map snd st)) = st"
    by (simp add: dict_of_pairs_distinct)
  with assms show ?thesis
    by (simp add: unpack_state_def pack_state_def)
qed

theorem pack_unpack_roundtrip_witness:
  "unpack_state example_dyn None = Inr [VNum 0, VNum (- 100), VNum 50, VNum 0]
   \<and> pack_state example_dyn (Some [VNum 0, VNum (- 100), VNum 50, VNum 0])
       = state example_dyn"
  using pack_unpack_roundtrip [OF example_state] by (simp add: example_state)

text \<open>
  C5. Without an argument \<open>pack_state\<close> is the state of the instance itself. With a
  sequence whose length differs from the number of keys of the state it fails with the
  ValueError of the source, the error the specification calls a shape mismatch.
\<close>

theorem pack_state_errors:
  "pack_state D None = state D
   \<and> (state D = Inr st \<and> length xs \<noteq> length st \<longrightarrow>
        pack_state D (Some xs) = Inl (ValueError pack_mismatch_message))"
  by (auto simp: pack_state_def)

theorem pack_state_errors_witness:
  "pack_state example_dyn None = state example_dyn
   \<and> pack_state example_dyn (Some [VNum 1, VNum 2]) = Inl (ValueError pack_mismatch_message)"
  using pack_state_errors
    [of example_dyn
        "[(''x_e'', VNum 0), (''z_e'', VNum (- 100)), (''u_e'', VNum 50), (''w_e'', VNum 0)]"
        "[VNum 1, VNum 2]"]
  by (simp add: example_state)

section \<open>Gravity, altitude and potential energy\<close>

text \<open>
  C9. \<open>add_gravity_force\<close> is one call of the variant's \<open>add_force\<close>, with \<open>Fz\<close> the
  mass times \<open>g\<close> (9.81 when \<open>g\<close> is not given), \<open>axes\<close> the earth frame, and \<open>Fx\<close>
  and \<open>Fy\<close> left to their defaults. Its only result is what that call does to the
  instance.
\<close>

theorem add_gravity_force_call:
  assumes "mass_of D = Inr (VNum m)"
  shows "add_gravity_force add_force D None
           = add_force D None None (Some (VNum (m * 9.81))) (Some ''earth'')
       \<and> add_gravity_force add_force D (Some (VNum g))
           = add_force D None None (Some (VNum (m * g))) (Some ''earth'')"
  using assms by (simp add: add_gravity_force_def)

theorem add_gravity_force_call_witness:
  "add_gravity_force example_add_force example_dyn None
     = example_add_force example_dyn None None (Some (VNum 19.62)) (Some ''earth'')
   \<and> add_gravity_force example_add_force example_dyn (Some (VNum 10))
     = example_add_force example_dyn None None (Some (VNum 20)) (Some ''earth'')"
  using add_gravity_force_call [OF example_mass, of example_add_force 10] by simp

text \<open>
  C10. The altitude is the negation of \<open>z_e\<close>, and the potential energy is the mass
  times 9.81 times the altitude, for a number and, element by element, for an array.
  Both are functions of the instance that return a value only, so they change nothing.
\<close>

theorem altitude_potential_energy:
  assumes "mass_of D = Inr (VNum m)"
  shows "(getattr D ''z_e'' = Inr (VNum z) \<longrightarrow>
            altitude D = Inr (VNum (- z))
          \<and> potential_energy D = Inr (VNum (m * 9.81 * (- z))))
       \<and> (getattr D ''z_e'' = Inr (VArr zs) \<longrightarrow>
            altitude D = Inr (VArr (map uminus zs))
          \<and> potential_energy D = Inr (VArr (map (\<lambda>z. m * 9.81 * (- z)) zs)))"
  using assms by (simp add: altitude_def potential_energy_def)

theorem altitude_potential_energy_witness:
  "altitude example_dyn = Inr (VNum 100) \<and> potential_energy example_dyn = Inr (VNum 1962)"
proof -
  have z: "getattr example_dyn ''z_e'' = Inr (VNum (- 100))"
    by (simp add: getattr_def example_dyn_def)
  from altitude_potential_energy [OF example_mass, of "- 100"] z show ?thesis by simp
qed

section \<open>Binding the derivative constraints\<close>

lemma example_derivs:
  "example_state_derivatives example_dyn
     = Inr [(''x_e'', VNum 50), (''z_e'', VNum 0), (''u_e'', VNone), (''w_e'', VNone)]"
  by (simp add: example_state_derivatives_def getattr_def example_dyn_def)

text \<open>
  C1. The claim asks for a ValueError naming the variable. What the source does for a
  name that is no key of the state, when \<open>state_derivatives\<close> returns the keys of the
  state as its contract says: the test \<open>state_derivatives[state_var_name] is None\<close>
  stands before the \<open>try\<close>, so the lookup raises a bare KeyError that no handler turns
  into the ValueError.
\<close>

theorem constrain_unknown_name_key_error:
  assumes "state D = Inr st" and "state_derivatives D = Inr sd"
    and "fst ` set sd = fst ` set st" and "name \<notin> fst ` set st"
  shows "constrain_derivatives cd state_derivatives D opti time method (Some (WSeq [name]))
           = Inl (KeyError name)"
proof -
  from assms(3,4) have "map_of sd name = None"
    by (simp add: map_of_eq_None_iff)
  with assms(2) show ?thesis
    by (simp add: constrain_derivatives_def which_names_def constrain_one_def)
qed

theorem constrain_unknown_name_key_error_witness:
  "constrain_derivatives example_constrain example_state_derivatives example_dyn [] (VArr [0, 1])
     None (Some (WSeq [''y_e''])) = Inl (KeyError ''y_e'')"
  using constrain_unknown_name_key_error
    [where state_derivatives = example_state_derivatives and D = example_dyn
       and name = "''y_e''" and cd = example_constrain,
     OF example_state example_derivs]
  by simp

lemma constrain_one_none:
  "map_of sd n = Some VNone \<Longrightarrow> constrain_one cd D sd t m opti n = Inr opti"
  by (simp add: constrain_one_def)

lemma constrain_loop_filter:
  "constrain_loop cd D sd t m opti ns
     = constrain_loop cd D sd t m opti (filter (\<lambda>n. map_of sd n \<noteq> Some VNone) ns)"
  by (induction ns arbitrary: opti) (auto simp: constrain_one_none split: sum.splits)

text \<open>
  C8. With \<open>which\<close> left out or equal to "all", the loop runs over the keys of the
  state, in their order. A name whose derivative is None leaves the optimisation context
  as it is and raises nothing, so removing these names from \<open>which\<close> changes neither
  the constraints imposed nor the outcome.
\<close>

theorem constrain_skips_none:
  assumes "state D = Inr st" and "state_derivatives D = Inr sd"
  shows "constrain_derivatives cd state_derivatives D opti time method None
           = constrain_loop cd D sd time (case method of None \<Rightarrow> ''midpoint'' | Some m \<Rightarrow> m)
               opti (map fst st)
       \<and> constrain_derivatives cd state_derivatives D opti time method (Some (WStr ''all''))
           = constrain_derivatives cd state_derivatives D opti time method
               (Some (WSeq (map fst st)))
       \<and> constrain_derivatives cd state_derivatives D opti time method (Some (WSeq names))
           = constrain_derivatives cd state_derivatives D opti time method
               (Some (WSeq (filter (\<lambda>n. map_of sd n \<noteq> Some VNone) names)))
       \<and> (map_of sd n = Some VNone \<longrightarrow>
            constrain_one cd D sd time m opti n = Inr opti)"
  using assms constrain_loop_filter [of cd D sd time _ opti names]
  by (simp add: constrain_derivatives_def which_names_def constrain_one_none)

theorem constrain_skips_none_witness:
  "constrain_derivatives example_constrain example_state_derivatives example_dyn [] (VArr [0, 1])
     None None = Inr [(VNum 50, VNum 0), (VNum 0, VNum (- 100))]
   \<and> constrain_derivatives example_constrain example_state_derivatives example_dyn []
       (VArr [0, 1]) None (Some (WSeq [''u_e'', ''x_e'', ''w_e'']))
     = constrain_derivatives example_constrain example_state_derivatives example_dyn []
       (VArr [0, 1]) None (Some (WSeq [''x_e'']))
   \<and> constrain_one example_constrain example_dyn
        [(''x_e'', VNum 50), (''z_e'', VNum 0), (''u_e'', VNone), (''w_e'', VNone)]
        (VArr [0, 1]) ''midpoint'' [] ''u_e'' = Inr []"
  using constrain_skips_none
    [where state_derivatives = example_state_derivatives and D = example_dyn
       and cd = example_constrain and opti = "[]" and time = "VArr [0, 1]"
       and names = "[''u_e'', ''x_e'', ''w_e'']" and n = "''u_e''" and m = "''midpoint''",
     OF example_state example_derivs]
  by (simp add: constrain_one_def example_state example_constrain_def)

section \<open>The length of an instance\<close>

lemma len_loop_fixed:
  "l \<noteq> 1 \<Longrightarrow> len_loop l vs =
     (if \<forall>v\<in>set vs. np_length v = 1 \<or> np_length v = l then Inr l
      else Inl (ValueError different_lengths_message))"
  by (induction vs) auto

lemma len_loop_one:
  "len_loop 1 vs =
     (case filter (\<lambda>v. np_length v \<noteq> 1) vs of
        [] \<Rightarrow> Inr 1
      | v # rest \<Rightarrow>
          if \<forall>w\<in>set vs. np_length w = 1 \<or> np_length w = np_length v then Inr (np_length v)
          else Inl (ValueError different_lengths_message))"
proof (induction vs)
  case Nil
  then show ?case by simp
next
  case (Cons v vs)
  show ?case
  proof (cases "np_length v = 1")
    case True
    with Cons show ?thesis by (auto split: list.splits)
  next
    case False
    then show ?thesis by (simp add: len_loop_fixed)
  qed
qed

lemma in_set_not_Nil: "x \<in> set xs \<Longrightarrow> xs \<noteq> []"
  by (cases xs) simp_all

lemma len_loop_differ:
  assumes "v \<in> set vs" "w \<in> set vs" "np_length v \<noteq> 1" "np_length w \<noteq> 1"
    "np_length v \<noteq> np_length w"
  shows "len_loop 1 vs = Inl (ValueError different_lengths_message)"
proof -
  from assms(1,3) have "v \<in> set (filter (\<lambda>v. np_length v \<noteq> 1) vs)" by simp
  then have "filter (\<lambda>v. np_length v \<noteq> 1) vs \<noteq> []"
    by (rule in_set_not_Nil) 
  then obtain h rest where h: "filter (\<lambda>v. np_length v \<noteq> 1) vs = h # rest"
    using list.exhaust by blast
  have "\<not> (\<forall>u\<in>set vs. np_length u = 1 \<or> np_length u = np_length h)"
  proof
    assume a: "\<forall>u\<in>set vs. np_length u = 1 \<or> np_length u = np_length h"
    from a assms(1,3) have "np_length v = np_length h" by blast
    moreover from a assms(2,4) have "np_length w = np_length h" by blast
    ultimately show False using assms(5) by simp
  qed
  with h show ?thesis unfolding len_loop_one by simp
qed

lemma len_loop_scalars: "\<forall>v\<in>set vs. np_length v = 1 \<Longrightarrow> len_loop 1 vs = Inr 1"
  by (induction vs) auto

lemma len_loop_common:
  assumes "\<forall>v\<in>set vs. np_length v = 1 \<or> np_length v = n" "\<exists>v\<in>set vs. np_length v = n"
  shows "len_loop 1 vs = Inr n"
proof (cases "filter (\<lambda>v. np_length v \<noteq> 1) vs")
  case Nil
  then have all1: "\<forall>v\<in>set vs. np_length v = 1"
    unfolding filter_empty_conv by blast
  with assms(2) have "n = 1" by blast
  with len_loop_scalars [OF all1] show ?thesis by simp
next
  case (Cons h rest)
  then have "h \<in> set (filter (\<lambda>v. np_length v \<noteq> 1) vs)" by simp
  then have "h \<in> set vs" "np_length h \<noteq> 1" by auto
  with assms(1) have "np_length h = n" by auto
  with Cons assms(1) show ?thesis unfolding len_loop_one by simp
qed

lemma example_mixed_state:
  "state example_mixed =
     Inr [(''x_e'', VArr [1, 2, 3]), (''z_e'', VArr [5]), (''u_e'', VNum 50), (''w_e'', VNum 0)]"
  by (simp add: state_def example_mixed_def example_class_def getattr_def)

lemma example_ragged_state:
  "state example_ragged =
     Inr [(''x_e'', VArr [1, 2, 3]), (''z_e'', VArr [5, 6]), (''u_e'', VNum 50), (''w_e'', VNum 0)]"
  by (simp add: state_def example_ragged_def example_class_def getattr_def)

text \<open>
  C6, as stated, at a state holding a three-element array and a one-element array: two
  vectorized variables of differing lengths, and the length operator returns 3.
\<close>

theorem len_one_element_array_counterexample:
  "state example_mixed =
     Inr [(''x_e'', VArr [1, 2, 3]), (''z_e'', VArr [5]), (''u_e'', VNum 50), (''w_e'', VNum 0)]
   \<and> length [1, 2, 3 :: real] \<noteq> length [5 :: real]
   \<and> len example_mixed = Inr 3"
  by (simp add: example_mixed_state len_def)

text \<open>
  C6, amended. The entries the loop compares are those whose \<open>np.length\<close> is not 1: a
  number and a one-element array alike are passed over. The operator fails with the
  ValueError of the source when two of the compared entries differ in length; it returns
  \<open>n\<close> when every compared entry has length \<open>n\<close> and some entry has that length;
  and it returns 1 when no entry is compared.
\<close>

theorem len_common_length:
  assumes "state D = Inr st"
  shows "((\<exists>v\<in>set (map snd st). \<exists>w\<in>set (map snd st).
             np_length v \<noteq> 1 \<and> np_length w \<noteq> 1 \<and> np_length v \<noteq> np_length w) \<longrightarrow>
            len D = Inl (ValueError different_lengths_message))
       \<and> ((\<forall>v\<in>set (map snd st). np_length v = 1 \<or> np_length v = n)
            \<and> (\<exists>v\<in>set (map snd st). np_length v = n) \<longrightarrow>
            len D = Inr n)
       \<and> ((\<forall>v\<in>set (map snd st). np_length v = 1) \<longrightarrow> len D = Inr 1)"
proof (intro conjI impI)
  assume "\<exists>v\<in>set (map snd st). \<exists>w\<in>set (map snd st).
             np_length v \<noteq> 1 \<and> np_length w \<noteq> 1 \<and> np_length v \<noteq> np_length w"
  then obtain v w where "v \<in> set (map snd st)" "w \<in> set (map snd st)"
    "np_length v \<noteq> 1" "np_length w \<noteq> 1" "np_length v \<noteq> np_length w" by blast
  from len_loop_differ [OF this] assms
  show "len D = Inl (ValueError different_lengths_message)" by (simp add: len_def)
next
  assume "(\<forall>v\<in>set (map snd st). np_length v = 1 \<or> np_length v = n)
            \<and> (\<exists>v\<in>set (map snd st). np_length v = n)"
  then have "len_loop 1 (map snd st) = Inr n" using len_loop_common by blast
  with assms show "len D = Inr n" by (simp add: len_def)
next
  assume "\<forall>v\<in>set (map snd st). np_length v = 1"
  from len_loop_scalars [OF this] assms show "len D = Inr 1" by (simp add: len_def)
qed

theorem len_common_length_witness:
  "len example_ragged = Inl (ValueError different_lengths_message)
   \<and> len example_mixed = Inr 3 \<and> len example_dyn = Inr 1"
  using len_common_length [OF example_ragged_state, of 0]
    len_common_length [OF example_mixed_state, of 3]
    len_common_length [OF example_state, of 1]
  by simp

section \<open>Deriving a new instance\<close>

lemma getattr_present: "k \<in> fst ` set (attrs D) \<Longrightarrow> getattr D k = Inr (attr_value D k)"
  by (auto simp: getattr_def attr_value_def map_of_eq_None_iff split: option.splits)

lemma read_attrs_present:
  "set ks \<subseteq> fst ` set (attrs D) \<Longrightarrow>
     read_attrs D ks acc = Inr (dict_extend acc (map (\<lambda>k. (k, attr_value D k)) ks))"
  by (induction ks arbitrary: acc) (simp_all add: getattr_present)

lemma map_of_graph: "k \<in> set ks \<Longrightarrow> map_of (map (\<lambda>k. (k, f k)) ks) k = Some (f k)"
  by (induction ks) auto

lemma take_args_graph:
  "set ks \<subseteq> set ks' \<Longrightarrow>
     take_args (map (\<lambda>k. (k, f k)) ks') ks = Inr (map (\<lambda>k. (k, f k)) ks)"
  by (induction ks) (simp_all add: map_of_graph)

lemma setattr_cls: "setattr s k v = Inr s' \<Longrightarrow> cls s' = cls s"
  by (auto simp: setattr_def split: if_splits)

lemma assign_each_writable:
  "fst ` set kvs \<inter> set (readonly_names (cls s)) = {} \<Longrightarrow>
     assign_each s kvs = Inr (s\<lparr>attrs := dict_extend (attrs s) kvs\<rparr>)"
proof (induction kvs arbitrary: s)
  case Nil
  then show ?case by simp
next
  case (Cons p kvs)
  obtain k v where p: "p = (k, v)" by (cases p)
  from Cons.prems p have k: "k \<notin> set (readonly_names (cls s))" by auto
  let ?s = "s\<lparr>attrs := AList.update k v (attrs s)\<rparr>"
  from Cons.prems have "fst ` set kvs \<inter> set (readonly_names (cls ?s)) = {}" by auto
  from Cons.IH [OF this] k p show ?case by (simp add: setattr_def)
qed

lemma assign_all_writable:
  "fst ` set kvs \<inter> set (readonly_names (cls s)) = {} \<Longrightarrow>
     assign_all s kvs = Inr (s\<lparr>attrs := dict_extend (attrs s) kvs\<rparr>)"
proof (induction kvs arbitrary: s)
  case Nil
  then show ?case by simp
next
  case (Cons p kvs)
  obtain k v where p: "p = (k, v)" by (cases p)
  from Cons.prems p have k: "k \<notin> set (readonly_names (cls s))" by auto
  let ?s = "s\<lparr>attrs := AList.update k v (attrs s)\<rparr>"
  from Cons.prems have "fst ` set kvs \<inter> set (readonly_names (cls ?s)) = {}" by auto
  from Cons.IH [OF this] k p show ?case by (simp add: setattr_def)
qed

lemma rebuilt_keys:
  "map fst (rebuilt_attrs E D) = init_args (cls D) @ control_names (cls D)"
  by (simp add: rebuilt_attrs_def init_args_def comp_def)

lemma kwargs_mass_props:
  "map_of (map (\<lambda>k. (k, attr_value D k)) (init_args c)) ''mass_props''
     = Some (attr_value D ''mass_props'')"
  by (simp add: init_args_def)

lemma carried_mass_props_eq:
  "''mass_props'' \<in> fst ` set (attrs D) \<Longrightarrow>
     carried_mass_props E D
       = (case attr_value D ''mass_props'' of VNone \<Rightarrow> default_mass_props E | mp \<Rightarrow> mp)"
  by (auto simp: carried_mass_props_def attr_value_def map_of_eq_None_iff
      split: option.splits val.splits)

lemma construct_rebuilt:
  assumes "wf_class (cls D)" and "has_init_args D"
  shows "construct E (cls D) (map (\<lambda>k. (k, attr_value D k)) (init_args (cls D)))
           = Inr \<lparr>cls = cls D, attrs = rebuilt_attrs E D\<rparr>"
proof -
  let ?c = "cls D"
  let ?kw = "map (\<lambda>k. (k, attr_value D k)) (init_args ?c)"
  have sub: "set (state_names ?c @ indirect_control_names ?c) \<subseteq> set (init_args ?c)"
    by (auto simp: init_args_def)
  have bound: "take_args ?kw (state_names ?c @ indirect_control_names ?c)
      = Inr (map (\<lambda>k. (k, attr_value D k)) (state_names ?c @ indirect_control_names ?c))"
    by (rule take_args_graph [OF sub])
  from assms(2) have mp: "''mass_props'' \<in> fst ` set (attrs D)"
    by (auto simp: has_init_args_def init_args_def)
  have mpv: "(case map_of ?kw ''mass_props'' of
                None \<Rightarrow> default_mass_props E
              | Some VNone \<Rightarrow> default_mass_props E
              | Some mp \<Rightarrow> mp) = carried_mass_props E D"
    by (simp add: kwargs_mass_props carried_mass_props_eq [OF mp] split: val.splits)
  from assms(1) have ro: "fst ` set (rebuilt_attrs E D)
      \<inter> set (readonly_names (cls \<lparr>cls = ?c, attrs = []\<rparr>)) = {}"
    using rebuilt_keys [of E D] by (simp add: wf_class_def flip: set_map)
  from assms(1) have dist: "distinct (map fst ([] @ rebuilt_attrs E D))"
    by (simp add: rebuilt_keys wf_class_def)
  have "construct E ?c ?kw = assign_each \<lparr>cls = ?c, attrs = []\<rparr> (rebuilt_attrs E D)"
    unfolding construct_def bound mpv by (simp add: rebuilt_attrs_def)
  also have "\<dots> = Inr \<lparr>cls = ?c, attrs = dict_extend [] (rebuilt_attrs E D)\<rparr>"
    using assign_each_writable [OF ro] by simp
  also have "dict_extend [] (rebuilt_attrs E D) = rebuilt_attrs E D"
    using dict_extend_distinct [OF dist] by simp
  finally show ?thesis .
qed

lemma kwargs_read:
  assumes "wf_class (cls D)" and "has_init_args D"
  shows "read_attrs D (init_args (cls D)) []
           = Inr (map (\<lambda>k. (k, attr_value D k)) (init_args (cls D)))"
proof -
  from assms(1) have "distinct (map fst ([] @ map (\<lambda>k. (k, attr_value D k)) (init_args (cls D))))"
    by (simp add: wf_class_def comp_def)
  from dict_extend_distinct [OF this] assms(2) show ?thesis
    by (simp add: read_attrs_present has_init_args_def)
qed

lemma set_state_NoState: "0 < n \<Longrightarrow> set_state n s NoState = Inr s"
  by (cases n) simp_all

lemma new_instance_rebuilt:
  assumes "wf_class (cls D)" and "has_init_args D"
  shows "get_new_instance_with_state E D ns
           = set_state (recursion_fuel E) \<lparr>cls = cls D, attrs = rebuilt_attrs E D\<rparr> ns"
  by (simp add: get_new_instance_with_state_def kwargs_read [OF assms] construct_rebuilt [OF assms])

lemma map_of_dict_extend_other:
  "k \<notin> fst ` set ps \<Longrightarrow> map_of (dict_extend d ps) k = map_of d k"
  by (induction ps arbitrary: d) (auto simp: AList.update_conv')

lemma rebuilt_distinct: "wf_class (cls D) \<Longrightarrow> distinct (map fst (rebuilt_attrs E D))"
  by (simp add: rebuilt_keys wf_class_def)

lemma rebuilt_control:
  assumes "wf_class (cls D)" and "k \<in> set (control_names (cls D))"
  shows "map_of (rebuilt_attrs E D) k = Some (VNum 0)"
proof -
  from assms(2) have "(k, VNum 0) \<in> set (rebuilt_attrs E D)"
    by (auto simp: rebuilt_attrs_def)
  with rebuilt_distinct [OF assms(1)] show ?thesis by (rule map_of_is_SomeI)
qed

lemma rebuilt_arg:
  assumes "wf_class (cls D)"
    and "k \<in> set (state_names (cls D) @ indirect_control_names (cls D))"
  shows "map_of (rebuilt_attrs E D) k = Some (attr_value D k)"
proof -
  from assms(2) have "(k, attr_value D k) \<in> set (rebuilt_attrs E D)"
    by (auto simp: rebuilt_attrs_def)
  with rebuilt_distinct [OF assms(1)] show ?thesis by (rule map_of_is_SomeI)
qed

lemma rebuilt_mass_props:
  "map_of (rebuilt_attrs E D) ''mass_props'' = Some (carried_mass_props E D)"
  by (simp add: rebuilt_attrs_def)

lemma state_of_rebuilt:
  assumes "wf_class (cls D)" and "cls R = cls D" and "attrs R = rebuilt_attrs E D"
  shows "state R = Inr (map (\<lambda>k. (k, attr_value D k)) (state_names (cls D)))"
proof -
  have sub: "set (state_names (cls R)) \<subseteq> fst ` set (attrs R)"
    using rebuilt_keys [of E D] assms(2,3)
    by (auto simp: init_args_def simp flip: set_map)
  have eq: "map (\<lambda>k. (k, attr_value R k)) (state_names (cls D))
      = map (\<lambda>k. (k, attr_value D k)) (state_names (cls D))"
    using rebuilt_arg [OF assms(1)] assms(3) by (simp add: attr_value_def)
  from assms(1) have "distinct (map fst ([] @ map (\<lambda>k. (k, attr_value D k)) (state_names (cls D))))"
    by (simp add: wf_class_def init_args_def comp_def)
  from dict_extend_distinct [OF this] read_attrs_present [OF sub, of "[]"] eq assms(2)
  show ?thesis by (simp add: state_def)
qed

lemma set_state_states_only:
  assumes wf: "wf_class (cls D)" and fuel: "2 \<le> n" and ok: "states_only (cls D) ns"
    and R: "cls R = cls D" "attrs R = rebuilt_attrs E D"
  shows "\<exists>ps. set_state n R ns = Inr (R\<lparr>attrs := dict_extend (attrs R) ps\<rparr>)
           \<and> fst ` set ps \<inter> set (''mass_props'' # indirect_control_names (cls D)
                @ control_names (cls D)) = {}"
proof -
  from fuel obtain m where n: "n = Suc (Suc m)"
    by (metis Suc_le_D numeral_2_eq_2 Suc_le_mono)
  show ?thesis
  proof (cases ns)
    case NoState
    have "set_state n R NoState = Inr (R\<lparr>attrs := dict_extend (attrs R) []\<rparr>)"
      by (simp add: n)
    with NoState show ?thesis by (intro exI [of _ "[]"]) simp
  next
    case (DictState d)
    with ok R(1) have "fst ` set d \<inter> set (readonly_names (cls R)) = {}" by auto
    from assign_all_writable [OF this]
    have "set_state n R (DictState d) = Inr (R\<lparr>attrs := dict_extend (attrs R) d\<rparr>)"
      by (simp add: n)
    with DictState ok show ?thesis by (intro exI [of _ d]) auto
  next
    case (SeqState xs)
    let ?ks = "state_names (cls D)"
    from SeqState ok have len: "length xs = length ?ks" by simp
    from wf have dks: "distinct ?ks" by (simp add: wf_class_def init_args_def)
    from len dks have "distinct (map fst (zip ?ks xs))" by simp
    then have packed: "dict_of_pairs (zip ?ks xs) = zip ?ks xs"
      by (rule dict_of_pairs_distinct)
    have pack: "pack_state R (Some xs) = Inr (zip ?ks xs)"
      using state_of_rebuilt [OF wf R] len packed by (simp add: pack_state_def comp_def)
    from wf len have keys: "fst ` set (zip ?ks xs) \<subseteq> set ?ks"
      by (simp flip: set_map)
    from wf have "set ?ks \<inter> set (readonly_names (cls D)) = {}"
      by (auto simp: wf_class_def init_args_def)
    with keys R(1) have "fst ` set (zip ?ks xs) \<inter> set (readonly_names (cls R)) = {}" by auto
    from assign_all_writable [OF this] pack
    have "set_state n R (SeqState xs) = Inr (R\<lparr>attrs := dict_extend (attrs R) (zip ?ks xs)\<rparr>)"
      by (simp add: n)
    moreover from wf have "set ?ks \<inter> set (''mass_props'' # indirect_control_names (cls D)
                @ control_names (cls D)) = {}"
      by (auto simp: wf_class_def init_args_def)
    with keys have "fst ` set (zip ?ks xs) \<inter> set (''mass_props'' # indirect_control_names (cls D)
                @ control_names (cls D)) = {}" by blast
    ultimately show ?thesis using SeqState by (intro exI [of _ "zip ?ks xs"]) simp
  qed
qed

lemma getattr_lookup: "map_of (attrs D) k = Some v \<Longrightarrow> getattr D k = Inr v"
  by (simp add: getattr_def)

lemma control_variables_zero:
  assumes wf: "wf_class c" and c: "cls D' = c"
    and z: "\<forall>k\<in>set (control_names c). map_of (attrs D') k = Some (VNum 0)"
  shows "control_variables D' = Inr (map (\<lambda>k. (k, VNum 0)) (control_names c))"
proof -
  from z have sub: "set (control_names (cls D')) \<subseteq> fst ` set (attrs D')"
    using c by (auto dest!: map_of_SomeD intro: rev_image_eqI)
  from z have eq: "map (\<lambda>k. (k, attr_value D' k)) (control_names c)
      = map (\<lambda>k. (k, VNum 0)) (control_names c)"
    by (simp add: attr_value_def)
  from wf have "distinct (map fst ([] @ map (\<lambda>k. (k, VNum 0)) (control_names c)))"
    by (simp add: wf_class_def comp_def)
  from dict_extend_distinct [OF this] read_attrs_present [OF sub, of "[]"] eq c
  show ?thesis by (simp add: control_variables_def)
qed

lemma is_state_states_only:
  assumes "wf_class c" and "is_state c ns"
  shows "states_only c ns"
proof (cases ns)
  case (DictState d)
  from assms(1) have "set (state_names c)
      \<inter> set (''mass_props'' # indirect_control_names c @ control_names c @ readonly_names c) = {}"
    by (auto simp: wf_class_def init_args_def)
  with assms(2) DictState show ?thesis by auto
next
  case NoState
  then show ?thesis by simp
next
  case (SeqState xs)
  with assms(2) show ?thesis by simp
qed

text \<open>
  C2. For an instance that holds every constructor argument, of a class whose names are
  distinct and none of them a read-only property, and any new state of that class (absent,
  a dict keyed by state variables, or a sequence with one value for each state variable):
  the call returns a new instance of the same class whose control variables are all 0,
  their value at construction, whatever the source had accumulated; its \<open>mass_props\<close>
  is that of the source (when it is not None), and its indirect control variables are
  those of the source.
\<close>

theorem new_instance_resets_controls:
  assumes "wf_class (cls D)" and "has_init_args D" and "2 \<le> recursion_fuel E"
    and "is_state (cls D) ns"
  shows "\<exists>D'. get_new_instance_with_state E D ns = Inr D' \<and> cls D' = cls D
     \<and> control_variables D' = Inr (map (\<lambda>k. (k, VNum 0)) (control_names (cls D)))
     \<and> (\<forall>mp. getattr D ''mass_props'' = Inr mp \<and> mp \<noteq> VNone \<longrightarrow>
           getattr D' ''mass_props'' = Inr mp)
     \<and> (\<forall>k\<in>set (indirect_control_names (cls D)). getattr D' k = getattr D k)"
proof -
  let ?c = "cls D"
  let ?R = "\<lparr>cls = ?c, attrs = rebuilt_attrs E D\<rparr>"
  let ?fixed = "''mass_props'' # indirect_control_names ?c @ control_names ?c"
  from assms(1,4) have "states_only ?c ns" by (rule is_state_states_only)
  from set_state_states_only [OF assms(1,3) this, of ?R E]
  obtain ps where run: "set_state (recursion_fuel E) ?R ns
        = Inr (?R\<lparr>attrs := dict_extend (attrs ?R) ps\<rparr>)"
    and ps: "fst ` set ps \<inter> set ?fixed = {}"
    by auto
  let ?D' = "?R\<lparr>attrs := dict_extend (attrs ?R) ps\<rparr>"
  have res: "get_new_instance_with_state E D ns = Inr ?D'"
    using new_instance_rebuilt [OF assms(1,2)] run by simp
  have keep: "map_of (attrs ?D') k = map_of (rebuilt_attrs E D) k" if "k \<in> set ?fixed" for k
  proof -
    from that ps have "k \<notin> fst ` set ps" by blast
    then show ?thesis by (simp add: map_of_dict_extend_other)
  qed
  have ctl: "control_variables ?D' = Inr (map (\<lambda>k. (k, VNum 0)) (control_names ?c))"
  proof (rule control_variables_zero [OF assms(1)])
    show "cls ?D' = ?c" by simp
    show "\<forall>k\<in>set (control_names ?c). map_of (attrs ?D') k = Some (VNum 0)"
      using keep rebuilt_control [OF assms(1)] by simp
  qed
  have mass: "getattr ?D' ''mass_props'' = Inr mp"
    if "getattr D ''mass_props'' = Inr mp \<and> mp \<noteq> VNone" for mp
  proof -
    from that have "carried_mass_props E D = mp"
      by (auto simp: carried_mass_props_def getattr_def split: option.splits val.splits)
    with keep [of "''mass_props''"] rebuilt_mass_props [of E D] show ?thesis
      by (simp add: getattr_lookup)
  qed
  have ind: "getattr ?D' k = getattr D k" if k: "k \<in> set (indirect_control_names ?c)" for k
  proof -
    from k assms(2) have "k \<in> fst ` set (attrs D)"
      by (auto simp: has_init_args_def init_args_def)
    then have "getattr D k = Inr (attr_value D k)" by (rule getattr_present)
    moreover from k have "map_of (attrs ?D') k = Some (attr_value D k)"
      using keep [of k] rebuilt_arg [OF assms(1), of k E] by simp
    ultimately show ?thesis by (simp add: getattr_lookup)
  qed
  from res ctl mass ind show ?thesis by (intro exI [of _ ?D']) simp
qed

lemma example_wf: "wf_class example_class"
  by (simp add: wf_class_def example_class_def init_args_def readonly_names_def
      base_properties_def)

lemma example_fuel: "2 \<le> recursion_fuel example_env"
  by (simp add: example_env_def)

theorem new_instance_resets_controls_witness:
  "\<exists>D'. get_new_instance_with_state example_env example_loaded
       (DictState [(''x_e'', VNum 1)]) = Inr D'
     \<and> control_variables D' = Inr [(''Fx_e'', VNum 0), (''Fz_e'', VNum 0)]
     \<and> getattr D' ''mass_props'' = Inr example_mass_props
     \<and> getattr D' ''alpha'' = Inr (VNum 0.1)"
proof -
  have wf: "wf_class (cls example_loaded)"
    using example_wf by (simp add: example_loaded_def)
  have args: "has_init_args example_loaded"
    by (simp add: has_init_args_def example_loaded_def example_class_def init_args_def)
  have ok: "is_state (cls example_loaded) (DictState [(''x_e'', VNum 1)])"
    by (simp add: example_loaded_def example_class_def)
  have mp: "getattr example_loaded ''mass_props'' = Inr example_mass_props"
    "example_mass_props \<noteq> VNone" "getattr example_loaded ''alpha'' = Inr (VNum 0.1)"
    by (simp_all add: getattr_def example_loaded_def example_mass_props_def)
  from new_instance_resets_controls [OF wf args example_fuel ok] mp
  show ?thesis
    by (auto simp: example_loaded_def example_class_def)
qed

section \<open>Indexing an instance\<close>





lemma index_attrs_all:
  assumes "\<forall>(k, v)\<in>set kvs. get_item_of_attribute E i v = Inr (f v)"
    and "fst ` set kvs \<inter> set (readonly_names (cls s)) = {}"
  shows "index_attrs E i s kvs
           = Inr (s\<lparr>attrs := dict_extend (attrs s) (map (\<lambda>(k, v). (k, f v)) kvs)\<rparr>)"
  using assms
proof (induction kvs arbitrary: s)
  case Nil
  then show ?case by simp
next
  case (Cons p kvs)
  obtain k v where p: "p = (k, v)" by (cases p)
  from Cons.prems p have k: "k \<notin> set (readonly_names (cls s))"
    and v: "get_item_of_attribute E i v = Inr (f v)" by auto
  let ?s = "s\<lparr>attrs := AList.update k (f v) (attrs s)\<rparr>"
  from Cons.prems have "\<forall>(k, v)\<in>set kvs. get_item_of_attribute E i v = Inr (f v)"
    and "fst ` set kvs \<inter> set (readonly_names (cls ?s)) = {}" by auto
  from Cons.IH [OF this] k v p show ?case by (simp add: setattr_def)
qed


lemma update_in_place:
  "k \<notin> fst ` set xs \<Longrightarrow> AList.update k v (xs @ (k, w) # ys) = xs @ (k, v) # ys"
  by (induction xs) auto

lemma dict_extend_in_place:
  "distinct (map fst (pre @ post)) \<Longrightarrow>
     dict_extend (map (\<lambda>(k, v). (k, f v)) pre @ post) (map (\<lambda>(k, v). (k, f v)) post)
       = map (\<lambda>(k, v). (k, f v)) (pre @ post)"
proof (induction post arbitrary: pre)
  case Nil
  then show ?case by simp
next
  case (Cons p post)
  obtain k v where p: "p = (k, v)" by (cases p)
  from Cons.prems p have "k \<notin> fst ` set (map (\<lambda>(k, v). (k, f v)) pre)"
    by (auto simp: image_iff)
  then have upd: "AList.update k (f v) (map (\<lambda>(k, v). (k, f v)) pre @ (k, v) # post)
      = map (\<lambda>(k, v). (k, f v)) (pre @ [(k, v)]) @ post"
    by (simp add: update_in_place)
  from Cons.prems p have "distinct (map fst ((pre @ [(k, v)]) @ post))" by simp
  from Cons.IH [OF this] upd p show ?case by simp
qed

lemma dict_extend_self:
  "distinct (map fst a) \<Longrightarrow>
     dict_extend a (map (\<lambda>(k, v). (k, f v)) a) = map (\<lambda>(k, v). (k, f v)) a"
  using dict_extend_in_place [of "[]" a f] by simp

lemma rebuilt_writable:
  "wf_class (cls D) \<Longrightarrow>
     fst ` set (rebuilt_attrs E D) \<inter> set (readonly_names (cls D)) = {}"
  using rebuilt_keys [of E D] by (simp add: wf_class_def flip: set_map)

lemma getitem_indexes_rebuilt:
  assumes wf: "wf_class (cls D)" and args: "has_init_args D" and fuel: "0 < recursion_fuel E"
    and items: "\<forall>(k, v)\<in>set (rebuilt_attrs E D). get_item_of_attribute E i v = Inr (f v)"
  shows "getitem E D i
           = Inr \<lparr>cls = cls D, attrs = map (\<lambda>(k, v). (k, f v)) (rebuilt_attrs E D)\<rparr>"
proof -
  let ?R = "\<lparr>cls = cls D, attrs = rebuilt_attrs E D\<rparr>"
  have new: "get_new_instance_with_state E D NoState = Inr ?R"
    by (simp add: new_instance_rebuilt [OF wf args] set_state_NoState [OF fuel])
  have ro: "fst ` set (rebuilt_attrs E D) \<inter> set (readonly_names (cls ?R)) = {}"
    using rebuilt_writable [OF wf] by simp
  from index_attrs_all [OF items ro] dict_extend_self [OF rebuilt_distinct [OF wf], of E f]
  have "index_attrs E i ?R (rebuilt_attrs E D)
      = Inr \<lparr>cls = cls D, attrs = map (\<lambda>(k, v). (k, f v)) (rebuilt_attrs E D)\<rparr>"
    by simp
  with new show ?thesis by (simp add: getitem_def)
qed



lemma getattr_in_keys: "getattr D k = Inr v \<Longrightarrow> k \<in> fst ` set (attrs D)"
  by (auto simp: getattr_def split: option.splits dest!: map_of_SomeD intro: rev_image_eqI)



lemma example_fuel_pos: "0 < recursion_fuel example_env"
  by (simp add: example_env_def)

lemma example_trajectory_wf: "wf_class (cls example_trajectory)"
  using example_wf by (simp add: example_trajectory_def)

lemma example_trajectory_args: "has_init_args example_trajectory"
  by (simp add: has_init_args_def example_trajectory_def example_class_def init_args_def)






text \<open>
  C4. The claim, and the docstring of \<open>__getitem__\<close>, say that each attribute is
  subscripted at the index. What the source does at a trajectory of three instants whose
  accumulated force \<open>Fx_e\<close> is the array 1, 2, 3: the loop runs over the attributes of
  the instance just derived, whose control variables are back at 0, so the instance
  indexed at 1 holds the force 0 and not the element 2, while the state variable
  \<open>x_e\<close> is indexed as claimed.
\<close>

theorem getitem_loses_accumulated_force:
  "getattr example_trajectory ''Fx_e'' = Inr (VArr [1, 2, 3])
   \<and> subscript example_env (VArr [1, 2, 3]) 1 = Inr (VNpNum 2)
   \<and> (case getitem example_env example_trajectory 1 of
         Inl e \<Rightarrow> Inl e
       | Inr D' \<Rightarrow> getattr D' ''Fx_e'') = Inr (VNum 0)
   \<and> (case getitem example_env example_trajectory 1 of
         Inl e \<Rightarrow> Inl e
       | Inr D' \<Rightarrow> getattr D' ''x_e'') = Inr (VNpNum 10)"
proof -
  let ?f = "\<lambda>v. case v of VArr xs \<Rightarrow> VNpNum (xs ! 1) | _ \<Rightarrow> v"
  have items: "\<forall>(k, v)\<in>set (rebuilt_attrs example_env example_trajectory).
      get_item_of_attribute example_env 1 v = Inr (?f v)"
    by (simp add: rebuilt_attrs_def carried_mass_props_def attr_value_def example_trajectory_def
        example_class_def example_mass_props_def get_item_of_attribute_def subscript_def
        py_index_def example_env_def)
  from getitem_indexes_rebuilt
    [OF example_trajectory_wf example_trajectory_args example_fuel_pos items]
  have "(case getitem example_env example_trajectory 1 of
         Inl e \<Rightarrow> Inl e
       | Inr D' \<Rightarrow> getattr D' ''Fx_e'') = Inr (VNum 0)"
    and "(case getitem example_env example_trajectory 1 of
         Inl e \<Rightarrow> Inl e
       | Inr D' \<Rightarrow> getattr D' ''x_e'') = Inr (VNpNum 10)"
    by (simp_all add: getattr_def rebuilt_attrs_def attr_value_def example_trajectory_def
        example_class_def)
  then show ?thesis
    by (simp add: getattr_def example_trajectory_def subscript_def py_index_def)
qed





end
